theory Spec2Isabelle
  imports Complex_Main
begin

section \<open>Tensors\<close>

text \<open>
  The notebook \<^verbatim>\<open>2-beta-vae.ipynb\<close> computes with tensors of the numerical library. A
  tensor is modelled by its sizes (one per dimension) and its elements in row-major
  order. In the sections on the layers, the networks, the sampler and the loss the
  elements are real numbers, which is what the formulas of the notebook denote; the
  numbers the library computes with, their overflow, underflow and non-finite values,
  are the subject of the section on binary32 arithmetic. A tensor of the library has as
  many elements as its sizes say, which is the predicate \<open>tensor_ok\<close>; every operation
  below keeps it.

  The exceptions of the notebook and of the library calls it makes are values of the
  type \<open>error\<close>; a computation that can raise returns \<open>error + 'a\<close>.
\<close>

datatype error = RuntimeError | ValueError | IndexError | ZeroDivisionError

record tensor =
  shape :: "nat list"
  data :: "real list"

definition tensor_ok :: "tensor \<Rightarrow> bool" where
  "tensor_ok t \<longleftrightarrow> length (data t) = prod_list (shape t)"

text \<open>A function applied to every element: \<^verbatim>\<open>t.exp()\<close>, \<^verbatim>\<open>t.pow(2)\<close>, \<^verbatim>\<open>t / 2\<close>, \<^verbatim>\<open>1 + t\<close>.\<close>

definition tmap :: "(real \<Rightarrow> real) \<Rightarrow> tensor \<Rightarrow> tensor" where
  "tmap f t = \<lparr>shape = shape t, data = map f (data t)\<rparr>"

subsection \<open>Element-wise binary operations and broadcasting\<close>

text \<open>
  Two sizes are compared from the last dimension backwards; two dimensions are
  compatible when they are equal or one of them is 1, and a missing dimension counts
  as 1; incompatible sizes raise. The functions with suffix \<open>_rev\<close> work on reversed
  sizes and indices. Operands of the same sizes are combined position by position.
\<close>

fun broadcast_rev :: "nat list \<Rightarrow> nat list \<Rightarrow> nat list option" where
  "broadcast_rev [] ys = Some ys"
| "broadcast_rev xs [] = Some xs"
| "broadcast_rev (x # xs) (y # ys) =
     (if x = y \<or> y = 1 then map_option ((#) x) (broadcast_rev xs ys)
      else if x = 1 then map_option ((#) y) (broadcast_rev xs ys)
      else None)"

definition broadcast_shapes :: "nat list \<Rightarrow> nat list \<Rightarrow> nat list option" where
  "broadcast_shapes a b = map_option rev (broadcast_rev (rev a) (rev b))"

fun unravel_rev :: "nat list \<Rightarrow> nat \<Rightarrow> nat list" where
  "unravel_rev [] k = []"
| "unravel_rev (d # ds) k = (k mod d) # unravel_rev ds (k div d)"

fun ravel_rev :: "nat list \<Rightarrow> nat list \<Rightarrow> nat" where
  "ravel_rev (d # ds) (j # js) = j + d * ravel_rev ds js"
| "ravel_rev _ _ = 0"

text \<open>
  The position, in an operand of sizes \<open>s\<close>, of the element that is used at position
  \<open>k\<close> of the broadcast result of sizes \<open>r\<close>.
\<close>

definition source_index_rev :: "nat list \<Rightarrow> nat list \<Rightarrow> nat \<Rightarrow> nat" where
  "source_index_rev s r k =
     ravel_rev s (map2 (\<lambda>d j. if d = 1 then 0 else j) s (unravel_rev r k))"

definition source_index :: "nat list \<Rightarrow> nat list \<Rightarrow> nat \<Rightarrow> nat" where
  "source_index s r k = source_index_rev (rev s) (rev r) k"

definition tbinop :: "(real \<Rightarrow> real \<Rightarrow> real) \<Rightarrow> tensor \<Rightarrow> tensor \<Rightarrow> error + tensor" where
  "tbinop f a b =
     (if shape a = shape b
      then Inr \<lparr>shape = shape a, data = map2 f (data a) (data b)\<rparr>
      else case broadcast_shapes (shape a) (shape b) of
        None \<Rightarrow> Inl RuntimeError
      | Some r \<Rightarrow>
          Inr \<lparr>shape = r,
               data = map (\<lambda>k. f (data a ! source_index (shape a) r k)
                                 (data b ! source_index (shape b) r k))
                          [0..<prod_list r]\<rparr>)"

text \<open>\<^verbatim>\<open>torch.sum(t)\<close>: the sum of all elements.\<close>

definition tsum :: "tensor \<Rightarrow> real" where
  "tsum t = sum_list (data t)"

section \<open>Layers\<close>

text \<open>
  The layers of the library that the notebook composes, with zero padding and dilation 1
  (the defaults, which the notebook keeps). A layer is a record of its constructor
  arguments and its parameter tensors. The constructor creates the parameter tensors with
  the sizes that follow from its arguments; their values (random at first, then changed
  by the optimiser) are given by an arbitrary function from positions to reals, so a
  statement for all such functions holds for all parameter values.

  \<open>and_then\<close> runs the next step on the result of a step that did not raise.
\<close>

definition and_then :: "error + 'a \<Rightarrow> ('a \<Rightarrow> error + 'b) \<Rightarrow> error + 'b" where
  "and_then r f = (case r of Inl e \<Rightarrow> Inl e | Inr v \<Rightarrow> f v)"

text \<open>
  A tensor of four dimensions given by its element at each index, and the element of a
  tensor of four dimensions at an index (row-major order).
\<close>

definition tabulate4 ::
  "nat \<Rightarrow> nat \<Rightarrow> nat \<Rightarrow> nat \<Rightarrow> (nat \<Rightarrow> nat \<Rightarrow> nat \<Rightarrow> nat \<Rightarrow> real) \<Rightarrow> tensor" where
  "tabulate4 n1 n2 n3 n4 f =
     \<lparr>shape = [n1, n2, n3, n4],
      data = map (\<lambda>k. f (k div (n2 * n3 * n4)) (k div (n3 * n4) mod n2) (k div n4 mod n3) (k mod n4))
                 [0..<n1 * n2 * n3 * n4]\<rparr>"

definition at4 :: "tensor \<Rightarrow> nat \<Rightarrow> nat \<Rightarrow> nat \<Rightarrow> nat \<Rightarrow> real" where
  "at4 t a b c d =
     data t ! (((a * (shape t ! 1) + b) * (shape t ! 2) + c) * (shape t ! 3) + d)"

text \<open>\<^verbatim>\<open>F.relu\<close> and \<^verbatim>\<open>torch.sigmoid\<close>, element by element.\<close>

definition relu :: "tensor \<Rightarrow> tensor" where
  "relu t = tmap (max 0) t"


text \<open>
  \<^verbatim>\<open>nn.Conv2d(in_channels, out_channels, kernel_size, stride)\<close>. The weight has sizes
  \<open>(out_channels, in_channels, k, k)\<close>. Applied to a batch of sizes \<open>(n, c, h, w)\<close> the layer
  raises unless \<open>c\<close> is \<open>in_channels\<close> and the kernel fits into the image; an input that
  does not have four dimensions raises as well. The result has sizes
  \<open>(n, out_channels, (h - k) div s + 1, (w - k) div s + 1)\<close>, and its element at
  \<open>(b, co, i, j)\<close> is the bias of channel \<open>co\<close> plus the sum over input channels and kernel
  positions of input times weight.
\<close>

record Conv2d =
  in_channels :: nat
  out_channels :: nat
  kernel_size :: nat
  stride :: nat
  weight :: tensor
  bias :: tensor

definition Conv2d_init ::
  "nat \<Rightarrow> nat \<Rightarrow> nat \<Rightarrow> nat \<Rightarrow> (nat \<Rightarrow> real) \<Rightarrow> (nat \<Rightarrow> real) \<Rightarrow> Conv2d" where
  "Conv2d_init ci co k s w b =
     \<lparr>in_channels = ci, out_channels = co, kernel_size = k, stride = s,
      weight = \<lparr>shape = [co, ci, k, k], data = map w [0..<co * ci * k * k]\<rparr>,
      bias = \<lparr>shape = [co], data = map b [0..<co]\<rparr>\<rparr>"

definition conv_out_size :: "nat \<Rightarrow> nat \<Rightarrow> nat \<Rightarrow> nat" where
  "conv_out_size k s h = (h - k) div s + 1"

definition Conv2d_forward :: "Conv2d \<Rightarrow> tensor \<Rightarrow> error + tensor" where
  "Conv2d_forward c x =
     (case shape x of
        [n, ci, h, w] \<Rightarrow>
          (let k = kernel_size c; s = stride c
           in if ci \<noteq> in_channels c \<or> s = 0 \<or> k = 0 \<or> h < k \<or> w < k then Inl RuntimeError
              else Inr (tabulate4 n (out_channels c) (conv_out_size k s h) (conv_out_size k s w)
                     (\<lambda>b co i j.
                        data (bias c) ! co
                        + (\<Sum>cc\<leftarrow>[0..<ci]. \<Sum>di\<leftarrow>[0..<k]. \<Sum>dj\<leftarrow>[0..<k].
                             at4 x b cc (i * s + di) (j * s + dj) * at4 (weight c) co cc di dj))))
      | _ \<Rightarrow> Inl RuntimeError)"





text \<open>
  \<^verbatim>\<open>nn.Linear(in_features, out_features)\<close>: the weight has sizes
  \<open>(out_features, in_features)\<close>; the last dimension of the input must be \<open>in_features\<close> and
  is replaced by \<open>out_features\<close>.
\<close>

record Linear =
  in_features :: nat
  out_features :: nat
  l_weight :: tensor
  l_bias :: tensor

definition Linear_init :: "nat \<Rightarrow> nat \<Rightarrow> (nat \<Rightarrow> real) \<Rightarrow> (nat \<Rightarrow> real) \<Rightarrow> Linear" where
  "Linear_init i o' w b =
     \<lparr>in_features = i, out_features = o',
      l_weight = \<lparr>shape = [o', i], data = map w [0..<o' * i]\<rparr>,
      l_bias = \<lparr>shape = [o'], data = map b [0..<o']\<rparr>\<rparr>"

definition Linear_forward :: "Linear \<Rightarrow> tensor \<Rightarrow> error + tensor" where
  "Linear_forward l x =
     (if shape x = [] \<or> last (shape x) \<noteq> in_features l then Inl RuntimeError
      else let rows = prod_list (butlast (shape x)); m = in_features l; q = out_features l
           in Inr \<lparr>shape = butlast (shape x) @ [q],
                   data = map (\<lambda>k. data (l_bias l) ! (k mod q)
                                    + (\<Sum>i\<leftarrow>[0..<m].
                                         data x ! (k div q * m + i)
                                         * data (l_weight l) ! (k mod q * m + i)))
                              [0..<rows * q]\<rparr>)"

text \<open>
  \<^verbatim>\<open>x.flatten(start_dim=1)\<close> merges all dimensions but the first and raises when there is
  no dimension 1. \<^verbatim>\<open>z.reshape(-1, d\<^sub>1, \<dots>)\<close> keeps the elements and infers the first size; it
  raises when the number of elements is not a multiple of the product of the given sizes.
\<close>

definition flatten1 :: "tensor \<Rightarrow> error + tensor" where
  "flatten1 x =
     (case shape x of
        n # d # ds \<Rightarrow> Inr \<lparr>shape = [n, prod_list (d # ds)], data = data x\<rparr>
      | _ \<Rightarrow> Inl IndexError)"


section \<open>Encoder\<close>

text \<open>
  \<^verbatim>\<open>
  class Encoder(nn.Module):
      def __init__(self, latent_size):
          self.conv1 = nn.Conv2d(in_channels=3, out_channels=16, kernel_size=3, stride=2)
          self.conv2 = nn.Conv2d(in_channels=16, out_channels=32, kernel_size=3, stride=2)
          self.conv3 = nn.Conv2d(in_channels=32, out_channels=64, kernel_size=3, stride=2)
          self.fc_mu = nn.Linear(7*7*64, latent_size)
          self.fc_logvar = nn.Linear(7*7*64, latent_size)
      def forward(self, x):
          x = F.relu(self.conv1(x))
          x = F.relu(self.conv2(x))
          x = F.relu(self.conv3(x))
          x = x.flatten(start_dim=1)
          mu = self.fc_mu(x)
          logvar = self.fc_logvar(x)
          return mu, logvar
  \<close>
  The parameter values are \<open>\<theta> name position\<close>, with the names of the state dictionary.
  \<open>Encoder_convs\<close> is the first three lines of \<^verbatim>\<open>forward\<close>.
\<close>

record Encoder =
  conv1 :: Conv2d
  conv2 :: Conv2d
  conv3 :: Conv2d
  fc_mu :: Linear
  fc_logvar :: Linear

definition Encoder_init :: "nat \<Rightarrow> (string \<Rightarrow> nat \<Rightarrow> real) \<Rightarrow> Encoder" where
  "Encoder_init latent_size \<theta> =
     \<lparr>conv1 = Conv2d_init 3 16 3 2 (\<theta> ''conv1.weight'') (\<theta> ''conv1.bias''),
      conv2 = Conv2d_init 16 32 3 2 (\<theta> ''conv2.weight'') (\<theta> ''conv2.bias''),
      conv3 = Conv2d_init 32 64 3 2 (\<theta> ''conv3.weight'') (\<theta> ''conv3.bias''),
      fc_mu = Linear_init (7 * 7 * 64) latent_size (\<theta> ''fc_mu.weight'') (\<theta> ''fc_mu.bias''),
      fc_logvar = Linear_init (7 * 7 * 64) latent_size
                    (\<theta> ''fc_logvar.weight'') (\<theta> ''fc_logvar.bias'')\<rparr>"

definition Encoder_convs :: "Encoder \<Rightarrow> tensor \<Rightarrow> error + tensor" where
  "Encoder_convs enc x =
     and_then (Conv2d_forward (conv1 enc) x) (\<lambda>x.
     and_then (Conv2d_forward (conv2 enc) (relu x)) (\<lambda>x.
     and_then (Conv2d_forward (conv3 enc) (relu x)) (\<lambda>x.
     Inr (relu x))))"

definition Encoder_forward :: "Encoder \<Rightarrow> tensor \<Rightarrow> error + (tensor \<times> tensor)" where
  "Encoder_forward enc x =
     and_then (Encoder_convs enc x) (\<lambda>x.
     and_then (flatten1 x) (\<lambda>x.
     and_then (Linear_forward (fc_mu enc) x) (\<lambda>mu.
     and_then (Linear_forward (fc_logvar enc) x) (\<lambda>logvar.
     Inr (mu, logvar)))))"

section \<open>Sampler\<close>

text \<open>
  \<^verbatim>\<open>
  def sample(mu, logvar):
      std = torch.exp(logvar / 2)
      eps = torch.rand_like(std)
      return mu + std * eps
  \<close>
  The random generator is an explicit argument \<open>g\<close>: \<open>g i\<close> is the \<open>i\<close>-th number the
  generator will deliver next. \<^verbatim>\<open>torch.rand_like\<close> fills a tensor of the sizes of its
  argument with the next numbers and advances the generator.
\<close>

type_synonym rng = "nat \<Rightarrow> real"

definition rand_like :: "rng \<Rightarrow> tensor \<Rightarrow> tensor \<times> rng" where
  "rand_like g t =
     (\<lparr>shape = shape t, data = map g [0..<prod_list (shape t)]\<rparr>,
      \<lambda>i. g (i + prod_list (shape t)))"

definition sample :: "rng \<Rightarrow> tensor \<Rightarrow> tensor \<Rightarrow> error + (tensor \<times> rng)" where
  "sample g mu logvar =
     (let std = tmap exp (tmap (\<lambda>v. v / 2) logvar);
          (eps, g') = rand_like g std
      in case tbinop (*) std eps of
           Inl e \<Rightarrow> Inl e
         | Inr se \<Rightarrow>
             (case tbinop (+) mu se of
                Inl e \<Rightarrow> Inl e
              | Inr z \<Rightarrow> Inr (z, g')))"

section \<open>Decoder\<close>




section \<open>VAE\<close>




section \<open>Loss\<close>

text \<open>
  \<^verbatim>\<open>
  def vae_loss(x_recon, x, mu, logvar, beta=3):
      bce = F.binary_cross_entropy(x_recon, x, reduction='sum')
      kld = -1/2 * torch.sum(1 + logvar - mu.pow(2) - logvar.exp())
      return bce + beta * kld
  \<close>
  The library's binary cross-entropy of an input element \<open>p\<close> against a target element
  \<open>y\<close> is \<open>- (y * log p + (1 - y) * log (1 - p))\<close>, where the library keeps each
  logarithm at or above \<open>-100\<close> (so that \<open>log 0\<close> counts as \<open>-100\<close>). It raises when the
  target's sizes differ from the input's, and when an input element is outside
  \<open>[0, 1]\<close>. With \<^verbatim>\<open>reduction='sum'\<close> the element losses are added up.
\<close>

definition clamp_log :: "real \<Rightarrow> real" where
  "clamp_log p = (if p \<le> 0 then - 100 else max (ln p) (- 100))"

definition bce_elem :: "real \<Rightarrow> real \<Rightarrow> real" where
  "bce_elem p y = - (y * clamp_log p + (1 - y) * clamp_log (1 - p))"

definition binary_cross_entropy_sum :: "tensor \<Rightarrow> tensor \<Rightarrow> error + real" where
  "binary_cross_entropy_sum input target =
     (if shape target \<noteq> shape input then Inl ValueError
      else if \<not> list_all (\<lambda>p. 0 \<le> p \<and> p \<le> 1) (data input) then Inl RuntimeError
      else Inr (sum_list (map2 bce_elem (data input) (data target))))"

text \<open>The second line of \<^verbatim>\<open>vae_loss\<close>; \<^verbatim>\<open>-1/2\<close> is the Python float \<open>-0.5\<close>.\<close>

definition kld :: "tensor \<Rightarrow> tensor \<Rightarrow> error + real" where
  "kld mu logvar =
     (case tbinop (-) (tmap (\<lambda>v. 1 + v) logvar) (tmap (\<lambda>v. v ^ 2) mu) of
        Inl e \<Rightarrow> Inl e
      | Inr a \<Rightarrow>
          (case tbinop (-) a (tmap exp logvar) of
             Inl e \<Rightarrow> Inl e
           | Inr b \<Rightarrow> Inr (- 1 / 2 * tsum b)))"

text \<open>The keyword argument \<^verbatim>\<open>beta=3\<close>: \<open>None\<close> is a call that leaves it out.\<close>

definition vae_loss ::
  "tensor \<Rightarrow> tensor \<Rightarrow> tensor \<Rightarrow> tensor \<Rightarrow> real option \<Rightarrow> error + real" where
  "vae_loss x_recon x mu logvar beta_arg =
     (let beta = (case beta_arg of None \<Rightarrow> 3 | Some b \<Rightarrow> b)
      in case binary_cross_entropy_sum x_recon x of
           Inl e \<Rightarrow> Inl e
         | Inr bce \<Rightarrow>
             (case kld mu logvar of
                Inl e \<Rightarrow> Inl e
              | Inr k \<Rightarrow> Inr (bce + beta * k)))"

subsection \<open>The loss in the words of the specification\<close>

text \<open>
  The reconstruction term: the binary cross-entropy summed across all pixels and batch
  elements, for \<open>n\<close> batch elements of \<open>m\<close> pixels each. The divergence term:
  \<open>-\<onehalf> \<cdot> \<Sum>(1 + logvar - mu\<^sup>2 - exp logvar)\<close>, summed across \<open>l\<close> latent dimensions and \<open>n\<close>
  batch elements. Element \<open>j\<close> of batch element \<open>b\<close> is at position \<open>b * l + j\<close>.
\<close>

definition reconstruction_term :: "nat \<Rightarrow> nat \<Rightarrow> tensor \<Rightarrow> tensor \<Rightarrow> real" where
  "reconstruction_term n m x_recon x =
     (\<Sum>b\<leftarrow>[0..<n]. \<Sum>p\<leftarrow>[0..<m].
        bce_elem (data x_recon ! (b * m + p)) (data x ! (b * m + p)))"

definition kl_term :: "nat \<Rightarrow> nat \<Rightarrow> tensor \<Rightarrow> tensor \<Rightarrow> real" where
  "kl_term n l mu logvar =
     - (1 / 2) * (\<Sum>b\<leftarrow>[0..<n]. \<Sum>j\<leftarrow>[0..<l].
        1 + data logvar ! (b * l + j) - (data mu ! (b * l + j))\<^sup>2
          - exp (data logvar ! (b * l + j)))"

definition spec_loss ::
  "nat \<Rightarrow> nat \<Rightarrow> nat \<Rightarrow> nat \<Rightarrow> tensor \<Rightarrow> tensor \<Rightarrow> tensor \<Rightarrow> tensor \<Rightarrow> real \<Rightarrow> real" where
  "spec_loss n m n' l x_recon x mu logvar beta =
     reconstruction_term n m x_recon x + beta * kl_term n' l mu logvar"

section \<open>Binary32 arithmetic\<close>

text \<open>
  The notebook never sets a number format, so every tensor holds numbers of the
  library's default format, IEEE 754 binary32. A value of the format is a finite
  number, an infinity, or NaN. The two zeros of the format are one value here: they
  compare equal, and no operation of the sampler or of the loss tells them apart.
\<close>

datatype f32 = Fin real | PInf | NInf | NaN

text \<open>
  An arithmetic operation computes the exact result, rounds it to the format and checks
  its range; the exponential and the logarithm of the library return an approximation
  of the exact value, which need not be the nearest number of the format. The rounding
  \<open>rnd\<close> of a finite exact result and the library's \<open>expf\<close> and \<open>logf\<close> on finite arguments
  are the components of an arithmetic \<open>A\<close>, which is an argument of every operation
  below. The properties are stated for every arithmetic whose rounding is monotone and
  leaves \<open>0\<close> and \<open>1\<close> unchanged, and whose exponential is never negative and is \<open>1\<close> at
  \<open>0\<close>: this is the predicate \<open>arith_ok\<close>. Rounding to the nearest number of the format
  with the library's exponential is such an arithmetic, and so is \<open>exact\<close>, which rounds
  nothing and checks the range only.
\<close>

record arith =
  rnd :: "real \<Rightarrow> real"
  expf :: "real \<Rightarrow> real"
  logf :: "real \<Rightarrow> real"

definition arith_ok :: "arith \<Rightarrow> bool" where
  "arith_ok A \<longleftrightarrow>
     mono (rnd A) \<and> rnd A 0 = 0 \<and> rnd A 1 = 1 \<and> (\<forall>a. 0 \<le> expf A a) \<and> expf A 0 = 1"

definition exact :: arith where
  "exact = \<lparr>rnd = id, expf = exp, logf = ln\<rparr>"

text \<open>
  The largest finite number of the format is \<open>2\<^sup>1\<^sup>2\<^sup>8 - 2\<^sup>1\<^sup>0\<^sup>4\<close>. A result whose magnitude
  reaches \<open>2\<^sup>1\<^sup>2\<^sup>8 - 2\<^sup>1\<^sup>0\<^sup>3\<close>, half a step beyond it, overflows to an infinity. The
  smallest positive number is \<open>2\<^sup>-\<^sup>1\<^sup>4\<^sup>9\<close>; a product, quotient, exponential or logarithm
  of magnitude at most \<open>2\<^sup>-\<^sup>1\<^sup>5\<^sup>0\<close>, half of it, underflows to zero. A sum of two numbers
  of the format that is so small is itself a number of the format, so addition checks
  overflow only.
\<close>

definition overflow32 :: real where
  "overflow32 = 2 ^ 128 - 2 ^ 103"

definition underflow32 :: real where
  "underflow32 = 1 / 2 ^ 150"

definition ovf :: "real \<Rightarrow> f32" where
  "ovf x = (if overflow32 \<le> x then PInf else if x \<le> - overflow32 then NInf else Fin x)"

definition range32 :: "real \<Rightarrow> f32" where
  "range32 x = (if \<bar>x\<bar> \<le> underflow32 then Fin 0 else ovf x)"

text \<open>The finite numbers of the format: in range, and unchanged by rounding.\<close>

fun finite32 :: "arith \<Rightarrow> f32 \<Rightarrow> bool" where
  "finite32 A (Fin a) = (rnd A a = a \<and> \<bar>a\<bar> < overflow32)"
| "finite32 A x = False"


fun fadd :: "arith \<Rightarrow> f32 \<Rightarrow> f32 \<Rightarrow> f32" where
  "fadd A NaN y = NaN"
| "fadd A x NaN = NaN"
| "fadd A (Fin a) (Fin b) = ovf (rnd A (a + b))"
| "fadd A PInf NInf = NaN"
| "fadd A NInf PInf = NaN"
| "fadd A PInf y = PInf"
| "fadd A x PInf = PInf"
| "fadd A NInf y = NInf"
| "fadd A x NInf = NInf"


fun fmul :: "arith \<Rightarrow> f32 \<Rightarrow> f32 \<Rightarrow> f32" where
  "fmul A NaN y = NaN"
| "fmul A x NaN = NaN"
| "fmul A (Fin a) (Fin b) = range32 (rnd A (a * b))"
| "fmul A (Fin a) PInf = (if a = 0 then NaN else if 0 < a then PInf else NInf)"
| "fmul A (Fin a) NInf = (if a = 0 then NaN else if 0 < a then NInf else PInf)"
| "fmul A PInf (Fin b) = (if b = 0 then NaN else if 0 < b then PInf else NInf)"
| "fmul A NInf (Fin b) = (if b = 0 then NaN else if 0 < b then NInf else PInf)"
| "fmul A PInf PInf = PInf"
| "fmul A NInf NInf = PInf"
| "fmul A PInf NInf = NInf"
| "fmul A NInf PInf = NInf"

fun fdiv :: "arith \<Rightarrow> f32 \<Rightarrow> f32 \<Rightarrow> f32" where
  "fdiv A NaN y = NaN"
| "fdiv A x NaN = NaN"
| "fdiv A (Fin a) (Fin b) =
     (if b = 0 then (if a = 0 then NaN else if 0 < a then PInf else NInf)
      else range32 (rnd A (a / b)))"
| "fdiv A (Fin a) y = Fin 0"
| "fdiv A PInf (Fin b) = (if 0 \<le> b then PInf else NInf)"
| "fdiv A NInf (Fin b) = (if 0 \<le> b then NInf else PInf)"
| "fdiv A x y = NaN"

fun fexp :: "arith \<Rightarrow> f32 \<Rightarrow> f32" where
  "fexp A (Fin a) = range32 (expf A a)"
| "fexp A PInf = PInf"
| "fexp A NInf = Fin 0"
| "fexp A NaN = NaN"



fun fle :: "f32 \<Rightarrow> f32 \<Rightarrow> bool" where
  "fle NaN y = False"
| "fle x NaN = False"
| "fle (Fin a) (Fin b) = (a \<le> b)"
| "fle NInf y = True"
| "fle x PInf = True"
| "fle x y = False"

subsection \<open>Tensors of binary32 numbers\<close>

text \<open>
  The same tensors as above with binary32 elements. \<^verbatim>\<open>torch.sum\<close> is modelled as adding
  the elements from left to right; the library may add them in another order, which
  changes the rounding of the sum only.
\<close>

record tensor32 =
  shape32 :: "nat list"
  data32 :: "f32 list"

definition tmap32 :: "(f32 \<Rightarrow> f32) \<Rightarrow> tensor32 \<Rightarrow> tensor32" where
  "tmap32 f t = \<lparr>shape32 = shape32 t, data32 = map f (data32 t)\<rparr>"

definition tbinop32 :: "(f32 \<Rightarrow> f32 \<Rightarrow> f32) \<Rightarrow> tensor32 \<Rightarrow> tensor32 \<Rightarrow> error + tensor32" where
  "tbinop32 f a b =
     (if shape32 a = shape32 b
      then Inr \<lparr>shape32 = shape32 a, data32 = map2 f (data32 a) (data32 b)\<rparr>
      else case broadcast_shapes (shape32 a) (shape32 b) of
        None \<Rightarrow> Inl RuntimeError
      | Some r \<Rightarrow>
          Inr \<lparr>shape32 = r,
               data32 = map (\<lambda>k. f (data32 a ! source_index (shape32 a) r k)
                                   (data32 b ! source_index (shape32 b) r k))
                            [0..<prod_list r]\<rparr>)"


subsection \<open>The sampler in binary32\<close>

text \<open>
  The function \<^verbatim>\<open>sample\<close> as above. \<^verbatim>\<open>torch.rand_like\<close> draws from the interval
  \<open>[0, 1)\<close>, which is the predicate \<open>uniform01\<close> on the generator.
\<close>

type_synonym rng32 = "nat \<Rightarrow> f32"

definition uniform01 :: "rng32 \<Rightarrow> bool" where
  "uniform01 g \<longleftrightarrow> (\<forall>i. \<exists>e. g i = Fin e \<and> 0 \<le> e \<and> e < 1)"

definition rand_like32 :: "rng32 \<Rightarrow> tensor32 \<Rightarrow> tensor32 \<times> rng32" where
  "rand_like32 g t =
     (\<lparr>shape32 = shape32 t, data32 = map g [0..<prod_list (shape32 t)]\<rparr>,
      \<lambda>i. g (i + prod_list (shape32 t)))"

definition sample_f32 ::
  "arith \<Rightarrow> rng32 \<Rightarrow> tensor32 \<Rightarrow> tensor32 \<Rightarrow> error + (tensor32 \<times> rng32)" where
  "sample_f32 A g mu logvar =
     (let std = tmap32 (fexp A) (tmap32 (\<lambda>v. fdiv A v (Fin 2)) logvar);
          (eps, g') = rand_like32 g std
      in and_then (tbinop32 (fmul A) std eps) (\<lambda>se.
         and_then (tbinop32 (fadd A) mu se) (\<lambda>z.
         Inr (z, g'))))"

subsection \<open>The loss in binary32\<close>






section \<open>Data\<close>

text \<open>
  \<^verbatim>\<open>
  batch_size = 4
  test_size = 100

  class Dataset(torch.utils.data.Dataset):
      def __init__(self, paths):
          self.paths = paths
          self.transform = transforms.Compose([...])
      def __len__(self):
          return len(self.paths)
      def __getitem__(self, index):
          x = datasets.folder.default_loader(self.paths[index])
          x = self.transform(x)
          return x

  paths = glob.glob('data/img_align_celeba/*.jpg')

  train_data = Dataset(paths[:-test_size])
  train_loader = torch.utils.data.DataLoader(train_data, batch_size=batch_size, shuffle=True)

  test_data = Dataset(paths[-test_size:])
  test_loader = torch.utils.data.DataLoader(test_data, batch_size=batch_size)
  \<close>
  \<open>slice_to xs k\<close> is the Python slice \<^verbatim>\<open>xs[:k]\<close> and \<open>slice_from xs k\<close> is \<^verbatim>\<open>xs[k:]\<close>: a
  negative bound counts from the end of the list, and a bound beyond either end of the
  list is moved to that end.
\<close>

definition batch_size :: nat where
  "batch_size = 4"

definition test_size :: int where
  "test_size = 100"

definition slice_to :: "'a list \<Rightarrow> int \<Rightarrow> 'a list" where
  "slice_to xs k = (if k < 0 then take (nat (int (length xs) + k)) xs else take (nat k) xs)"

definition slice_from :: "'a list \<Rightarrow> int \<Rightarrow> 'a list" where
  "slice_from xs k = (if k < 0 then drop (nat (int (length xs) + k)) xs else drop (nat k) xs)"

text \<open>
  The data set keeps the list of paths. Reading an item loads the image at the path and
  transforms it (\<open>load\<close>, which can raise); it returns the item and the data set after the
  call. A negative index counts from the end, an index out of range raises.
\<close>

record Dataset =
  paths :: "string list"

definition Dataset_init :: "string list \<Rightarrow> Dataset" where
  "Dataset_init ps = \<lparr>paths = ps\<rparr>"

definition Dataset_len :: "Dataset \<Rightarrow> nat" where
  "Dataset_len ds = length (paths ds)"

definition Dataset_getitem ::
  "(string \<Rightarrow> error + 'img) \<Rightarrow> Dataset \<Rightarrow> int \<Rightarrow> error + ('img \<times> Dataset)" where
  "Dataset_getitem load ds index =
     (let n = int (length (paths ds));
          j = (if index < 0 then index + n else index)
      in if j < 0 \<or> n \<le> j then Inl IndexError
         else case load (paths ds ! nat j) of
                Inl e \<Rightarrow> Inl e
              | Inr x \<Rightarrow> Inr (x, ds))"

text \<open>
  The loader of the library: it raises when the batch size is not positive, its length
  is the number of batches (the last batch may be short), and in one pass it reads the
  items in batches of consecutive indices, of \<open>0, 1, \<dots>, n - 1\<close> without shuffling and of a
  random permutation \<open>p\<close> of these indices, drawn for the pass, with shuffling. The
  library refuses to build a shuffling loader for an empty data set: its random sampler
  raises unless the number of samples is positive.
\<close>

record DataLoader =
  ld_dataset :: Dataset
  ld_batch_size :: nat
  ld_shuffle :: bool

definition DataLoader_init :: "Dataset \<Rightarrow> nat \<Rightarrow> bool \<Rightarrow> error + DataLoader" where
  "DataLoader_init ds bs sh =
     (if bs = 0 \<or> (sh \<and> Dataset_len ds = 0) then Inl ValueError
      else Inr \<lparr>ld_dataset = ds, ld_batch_size = bs, ld_shuffle = sh\<rparr>)"

definition DataLoader_len :: "DataLoader \<Rightarrow> nat" where
  "DataLoader_len ld =
     (Dataset_len (ld_dataset ld) + ld_batch_size ld - 1) div ld_batch_size ld"

function chunks :: "nat \<Rightarrow> 'a list \<Rightarrow> 'a list list" where
  "chunks n xs = (if n = 0 \<or> xs = [] then [] else take n xs # chunks n (drop n xs))"
  by pat_completeness auto
termination
  by (relation "measure (\<lambda>(n, xs). length xs)") auto

declare chunks.simps [simp del]

definition DataLoader_indices :: "DataLoader \<Rightarrow> nat list \<Rightarrow> nat list list" where
  "DataLoader_indices ld p =
     chunks (ld_batch_size ld)
       (if ld_shuffle ld then p else [0..<Dataset_len (ld_dataset ld)])"

text \<open>
  The last four statements of the cell, in their order, for the list \<open>ps\<close> that
  \<^verbatim>\<open>glob.glob\<close> returns: the train split, its loader, the test split, its loader. A
  statement that raises ends the cell, so the test split is built only after the train
  loader has been built.
\<close>

record splits =
  train_data :: Dataset
  train_loader :: DataLoader
  test_data :: Dataset
  test_loader :: DataLoader

definition data_cell :: "string list \<Rightarrow> error + splits" where
  "data_cell ps =
     (let train_data = Dataset_init (slice_to ps (- test_size))
      in and_then (DataLoader_init train_data batch_size True) (\<lambda>train_loader.
         let test_data = Dataset_init (slice_from ps (- test_size))
         in and_then (DataLoader_init test_data batch_size False) (\<lambda>test_loader.
            Inr \<lparr>train_data = train_data, train_loader = train_loader,
                 test_data = test_data, test_loader = test_loader\<rparr>)))"

section \<open>Training\<close>

text \<open>
  \<^verbatim>\<open>
  epochs = 10
  for epoch in range(1, epochs + 1):
      running_loss = 0
      for batch, x in enumerate(train_loader, start=1):
          x = x.to(device)
          optimizer.zero_grad()
          x_recon, mu, logvar = vae(x)
          loss = vae_loss(x_recon, x, mu, logvar)
          loss.backward()
          optimizer.step()
          running_loss += loss.item()
          if batch % (len(train_loader) // 10) == 0:
              print('=', end='')
      print(f'> Epoch: {epoch}, Loss: {running_loss / len(train_data)}')

  torch.save(vae.state_dict(), 'beta-vae.pth')
  \<close>
  The state of the run is the model (the parameters, with the state of the optimiser),
  the running loss and what has been written so far: the progress marks, the line
  printed after each epoch (its epoch number and its loss value) and the files saved.
  \<open>step m x\<close> stands for the first six lines of the inner loop body on the model \<open>m\<close> and
  the batch \<open>x\<close>: it gives the value \<^verbatim>\<open>loss.item()\<close> and the model after the optimiser step.
  \<open>loader epoch\<close> is the list of batches that the train loader delivers in that epoch,
  \<open>len_loader\<close> is \<^verbatim>\<open>len(train_loader)\<close> and \<open>len_data\<close> is \<^verbatim>\<open>len(train_data)\<close>. The remainder
  and the quotient raise on a zero divisor.
\<close>

definition epochs :: nat where
  "epochs = 10"

datatype 'm event = Progress | Epoch_log nat real | Save string 'm

record 'm run =
  model :: 'm
  running_loss :: real
  out :: "'m event list"

fun batch_loop ::
  "('m \<Rightarrow> 'x \<Rightarrow> real \<times> 'm) \<Rightarrow> nat \<Rightarrow> nat \<Rightarrow> 'x list \<Rightarrow> 'm run \<Rightarrow> error + 'm run" where
  "batch_loop step len_loader batch [] s = Inr s"
| "batch_loop step len_loader batch (x # xs) s =
     (let (loss, m) = step (model s) x;
          s1 = s\<lparr>model := m, running_loss := running_loss s + loss\<rparr>
      in if len_loader div 10 = 0 then Inl ZeroDivisionError
         else batch_loop step len_loader (batch + 1) xs
                (if batch mod (len_loader div 10) = 0
                 then s1\<lparr>out := out s1 @ [Progress]\<rparr> else s1))"

fun epoch_loop ::
  "('m \<Rightarrow> 'x \<Rightarrow> real \<times> 'm) \<Rightarrow> (nat \<Rightarrow> 'x list) \<Rightarrow> nat \<Rightarrow> nat \<Rightarrow> nat list \<Rightarrow> 'm run
     \<Rightarrow> error + 'm run" where
  "epoch_loop step loader len_loader len_data [] s = Inr s"
| "epoch_loop step loader len_loader len_data (epoch # es) s =
     (case batch_loop step len_loader 1 (loader epoch) (s\<lparr>running_loss := 0\<rparr>) of
        Inl e \<Rightarrow> Inl e
      | Inr s1 \<Rightarrow>
          if len_data = 0 then Inl ZeroDivisionError
          else epoch_loop step loader len_loader len_data es
                 (s1\<lparr>out := out s1 @ [Epoch_log epoch (running_loss s1 / real len_data)]\<rparr>))"

definition train ::
  "('m \<Rightarrow> 'x \<Rightarrow> real \<times> 'm) \<Rightarrow> (nat \<Rightarrow> 'x list) \<Rightarrow> nat \<Rightarrow> nat \<Rightarrow> 'm \<Rightarrow> error + 'm run" where
  "train step loader len_loader len_data vae =
     (case epoch_loop step loader len_loader len_data [1..<epochs + 1]
             \<lparr>model = vae, running_loss = 0, out = []\<rparr> of
        Inl e \<Rightarrow> Inl e
      | Inr s \<Rightarrow> Inr (s\<lparr>out := out s @ [Save ''beta-vae.pth'' (model s)]\<rparr>))"

subsection \<open>The run in the words of the specification\<close>

text \<open>
  The loss values of the batches of one epoch, in order, and the model after them; the
  lines logged at the end of each epoch, each the sum of the epoch's batch losses divided
  by the number of training samples; the model after the epochs. \<open>printed_lines\<close> drops the
  progress marks from the output, \<open>saved\<close> keeps the files saved.
\<close>

fun batch_losses :: "('m \<Rightarrow> 'x \<Rightarrow> real \<times> 'm) \<Rightarrow> 'm \<Rightarrow> 'x list \<Rightarrow> real list" where
  "batch_losses step m [] = []"
| "batch_losses step m (x # xs) = fst (step m x) # batch_losses step (snd (step m x)) xs"

fun after_batches :: "('m \<Rightarrow> 'x \<Rightarrow> real \<times> 'm) \<Rightarrow> 'm \<Rightarrow> 'x list \<Rightarrow> 'm" where
  "after_batches step m [] = m"
| "after_batches step m (x # xs) = after_batches step (snd (step m x)) xs"

fun epoch_logs ::
  "('m \<Rightarrow> 'x \<Rightarrow> real \<times> 'm) \<Rightarrow> (nat \<Rightarrow> 'x list) \<Rightarrow> nat \<Rightarrow> 'm \<Rightarrow> nat list \<Rightarrow> 'm event list" where
  "epoch_logs step loader len_data m [] = []"
| "epoch_logs step loader len_data m (epoch # es) =
     Epoch_log epoch (sum_list (batch_losses step m (loader epoch)) / real len_data)
       # epoch_logs step loader len_data (after_batches step m (loader epoch)) es"

fun after_epochs :: "('m \<Rightarrow> 'x \<Rightarrow> real \<times> 'm) \<Rightarrow> (nat \<Rightarrow> 'x list) \<Rightarrow> 'm \<Rightarrow> nat list \<Rightarrow> 'm" where
  "after_epochs step loader m [] = m"
| "after_epochs step loader m (epoch # es) =
     after_epochs step loader (after_batches step m (loader epoch)) es"

definition printed_lines :: "'m event list \<Rightarrow> 'm event list" where
  "printed_lines evs = filter (\<lambda>ev. ev \<noteq> Progress) evs"

fun is_save :: "'m event \<Rightarrow> bool" where
  "is_save (Save file m) = True"
| "is_save _ = False"

definition saved :: "'m event list \<Rightarrow> 'm event list" where
  "saved evs = filter is_save evs"

section \<open>Properties of the sampler\<close>

lemma tbinop_same_shape:
  "shape a = shape b \<Longrightarrow>
   tbinop f a b = Inr \<lparr>shape = shape a, data = map2 f (data a) (data b)\<rparr>"
  by (simp add: tbinop_def)

lemma sample_same_shape:
  assumes "shape mu = shape logvar"
  shows "sample g mu logvar =
    Inr (\<lparr>shape = shape mu,
          data = map2 (+) (data mu)
                   (map2 (*) (map (\<lambda>v. exp (v / 2)) (data logvar))
                      (map g [0..<prod_list (shape logvar)]))\<rparr>,
         \<lambda>i. g (i + prod_list (shape logvar)))"
  using assms
  by (simp add: sample_def rand_like_def tmap_def tbinop_same_shape Let_def comp_def)

text \<open>
  Claim C1. For tensors \<open>mu\<close> and \<open>logvar\<close> of the same sizes and any noise the
  generator delivers, the sampler returns a tensor of those sizes whose element \<open>i\<close> is
  \<open>mu\<^sub>i + exp (logvar\<^sub>i / 2) * eps\<^sub>i\<close>, where \<open>eps\<close> is the tensor that
  \<^verbatim>\<open>rand_like\<close> drew.
\<close>

theorem sample_elementwise:
  assumes "shape mu = shape logvar" and "tensor_ok mu" and "tensor_ok logvar"
  shows "\<exists>z g'. sample g mu logvar = Inr (z, g')
           \<and> shape z = shape mu
           \<and> length (data z) = prod_list (shape mu)
           \<and> (\<forall>i < prod_list (shape mu).
                 data z ! i =
                   data mu ! i
                   + exp (data logvar ! i / 2)
                     * data (fst (rand_like g (tmap exp (tmap (\<lambda>v. v / 2) logvar)))) ! i)"
  using assms
  by (simp add: sample_same_shape tensor_ok_def rand_like_def tmap_def)

text \<open>The literal instance of the specification: \<open>mu = [0]\<close>, \<open>logvar = [0]\<close>, \<open>eps = [1]\<close>.\<close>

theorem sample_elementwise_witness:
  "\<exists>g'. sample (\<lambda>_. 1) \<lparr>shape = [1], data = [0]\<rparr> \<lparr>shape = [1], data = [0]\<rparr>
          = Inr (\<lparr>shape = [1], data = [1]\<rparr>, g')"
proof -
  let ?t = "\<lparr>shape = [1], data = [0]\<rparr>"
  have ok: "shape ?t = shape ?t" "tensor_ok ?t"
    by (simp_all add: tensor_ok_def)
  from sample_elementwise [OF ok(1) ok(2) ok(2), of "\<lambda>_. 1"]
  obtain z g' where r: "sample (\<lambda>_. 1) ?t ?t = Inr (z, g')"
    and s: "shape z = [1]" and l: "length (data z) = 1" and d: "data z ! 0 = 1"
    by (auto simp: rand_like_def tmap_def)
  from l d have "data z = [1]"
    by (cases "data z") auto
  with s have "z = \<lparr>shape = [1], data = [1]\<rparr>"
    by simp
  with r show ?thesis by blast
qed

section \<open>Shapes of the encoder and the decoder\<close>

lemma and_then_Inr [simp]: "and_then (Inr v) f = f v"
  by (simp add: and_then_def)

lemma shape_tabulate4 [simp]: "shape (tabulate4 a b c d f) = [a, b, c, d]"
  by (simp add: tabulate4_def)

lemma tensor_ok_tabulate4 [simp]: "tensor_ok (tabulate4 a b c d f)"
  by (simp add: tabulate4_def tensor_ok_def mult.assoc)

lemma shape_tmap [simp]: "shape (tmap f t) = shape t"
  by (simp add: tmap_def)

lemma tensor_ok_tmap [simp]: "tensor_ok (tmap f t) = tensor_ok t"
  by (simp add: tmap_def tensor_ok_def)

lemma shape_relu [simp]: "shape (relu t) = shape t"
  by (simp add: relu_def)

lemma tensor_ok_relu [simp]: "tensor_ok (relu t) = tensor_ok t"
  by (simp add: relu_def)

lemma Conv2d_forward_shape:
  assumes "shape x = [n, ci, h, w]" and "0 < s" and "0 < k" and "k \<le> h" and "k \<le> w"
  shows "\<exists>y. Conv2d_forward (Conv2d_init ci co k s wt b) x = Inr y
           \<and> shape y = [n, co, conv_out_size k s h, conv_out_size k s w] \<and> tensor_ok y"
  using assms by (simp add: Conv2d_forward_def Conv2d_init_def Let_def)


lemma Linear_forward_shape:
  assumes "shape x = [n, m]"
  shows "\<exists>y. Linear_forward (Linear_init m q wt b) x = Inr y \<and> shape y = [n, q] \<and> tensor_ok y"
  using assms by (simp add: Linear_forward_def Linear_init_def Let_def tensor_ok_def)

lemma Encoder_convs_shape:
  assumes "shape x = [n, 3, 64, 64]"
  shows "\<exists>y. Encoder_convs (Encoder_init latent_size \<theta>) x = Inr y
           \<and> shape y = [n, 64, 7, 7] \<and> tensor_ok y"
proof -
  from Conv2d_forward_shape [OF assms, of 2 3 16 "\<theta> ''conv1.weight''" "\<theta> ''conv1.bias''"]
  obtain y1 where y1: "Conv2d_forward (conv1 (Encoder_init latent_size \<theta>)) x = Inr y1"
    "shape (relu y1) = [n, 16, 31, 31]"
    by (auto simp: Encoder_init_def conv_out_size_def)
  from Conv2d_forward_shape [OF y1(2), of 2 3 32 "\<theta> ''conv2.weight''" "\<theta> ''conv2.bias''"]
  obtain y2 where y2: "Conv2d_forward (conv2 (Encoder_init latent_size \<theta>)) (relu y1) = Inr y2"
    "shape (relu y2) = [n, 32, 15, 15]"
    by (auto simp: Encoder_init_def conv_out_size_def)
  from Conv2d_forward_shape [OF y2(2), of 2 3 64 "\<theta> ''conv3.weight''" "\<theta> ''conv3.bias''"]
  obtain y3 where y3: "Conv2d_forward (conv3 (Encoder_init latent_size \<theta>)) (relu y2) = Inr y3"
    "shape (relu y3) = [n, 64, 7, 7]" "tensor_ok (relu y3)"
    by (auto simp: Encoder_init_def conv_out_size_def)
  from y1(1) y2(1) y3 show ?thesis
    by (simp add: Encoder_convs_def)
qed

lemma Encoder_forward_shape:
  assumes "shape x = [n, 3, 64, 64]"
  shows "\<exists>y mu logvar.
           Encoder_convs (Encoder_init latent_size \<theta>) x = Inr y \<and> shape y = [n, 64, 7, 7]
           \<and> Encoder_forward (Encoder_init latent_size \<theta>) x = Inr (mu, logvar)
           \<and> shape mu = [n, latent_size] \<and> shape logvar = [n, latent_size]
           \<and> tensor_ok mu \<and> tensor_ok logvar"
proof -
  from Encoder_convs_shape [OF assms]
  obtain y where y: "Encoder_convs (Encoder_init latent_size \<theta>) x = Inr y"
    "shape y = [n, 64, 7, 7]"
    by blast
  let ?f = "\<lparr>shape = [n, prod_list [64, 7, 7]], data = data y\<rparr>"
  have f: "flatten1 y = Inr ?f" "shape ?f = [n, 7 * 7 * 64]"
    using y(2) by (simp_all add: flatten1_def)
  from Linear_forward_shape [OF f(2), of latent_size "\<theta> ''fc_mu.weight''" "\<theta> ''fc_mu.bias''"]
  obtain mu where mu: "Linear_forward (fc_mu (Encoder_init latent_size \<theta>)) ?f = Inr mu"
    "shape mu = [n, latent_size]" "tensor_ok mu"
    by (auto simp: Encoder_init_def)
  from Linear_forward_shape
    [OF f(2), of latent_size "\<theta> ''fc_logvar.weight''" "\<theta> ''fc_logvar.bias''"]
  obtain logvar where
    lv: "Linear_forward (fc_logvar (Encoder_init latent_size \<theta>)) ?f = Inr logvar"
    "shape logvar = [n, latent_size]" "tensor_ok logvar"
    by (auto simp: Encoder_init_def)
  have "Encoder_forward (Encoder_init latent_size \<theta>) x = Inr (mu, logvar)"
    using y(1) f(1) mu(1) lv(1) by (simp add: Encoder_forward_def)
  with y mu lv show ?thesis
    by blast
qed

text \<open>
  Claim C4. For every batch of sizes \<open>(n, 3, 64, 64)\<close>, every latent size and all parameter
  values, the three convolutions of the encoder (each of stride 2, each followed by the
  rectifier) give a tensor of sizes \<open>(n, 64, 7, 7)\<close>, and the encoder returns \<open>mu\<close> and
  \<open>logvar\<close>, each of sizes \<open>(n, latent_size)\<close>.
\<close>

theorem Encoder_shapes:
  assumes "shape x = [n, 3, 64, 64]"
  shows "\<exists>y mu logvar.
           Encoder_convs (Encoder_init latent_size \<theta>) x = Inr y \<and> shape y = [n, 64, 7, 7]
           \<and> Encoder_forward (Encoder_init latent_size \<theta>) x = Inr (mu, logvar)
           \<and> shape mu = [n, latent_size] \<and> shape logvar = [n, latent_size]
           \<and> tensor_ok mu \<and> tensor_ok logvar"
  using assms by (rule Encoder_forward_shape)

text \<open>A batch of four images and latent size 16, as in the notebook.\<close>

theorem Encoder_shapes_witness:
  "\<exists>mu logvar.
     Encoder_forward (Encoder_init 16 (\<lambda>name i. 0)) \<lparr>shape = [4, 3, 64, 64], data = replicate 49152 0\<rparr>
       = Inr (mu, logvar)
     \<and> shape mu = [4, 16] \<and> shape logvar = [4, 16]"
proof -
  have "shape \<lparr>shape = [4, 3, 64, 64], data = replicate 49152 0\<rparr> = [4, 3, 64, 64]"
    by simp
  from Encoder_shapes [OF this, of 16 "\<lambda>name i. 0"] show ?thesis
    by blast
qed






section \<open>Properties of the loss\<close>

lemma clamp_log_nonpos: "p \<le> 1 \<Longrightarrow> clamp_log p \<le> 0"
  by (simp add: clamp_log_def)

lemma bce_elem_nonneg:
  assumes "0 \<le> p" "p \<le> 1" "0 \<le> y" "y \<le> 1"
  shows "0 \<le> bce_elem p y"
proof -
  have "y * clamp_log p \<le> 0"
    using assms by (intro mult_nonneg_nonpos clamp_log_nonpos) simp_all
  moreover have "(1 - y) * clamp_log (1 - p) \<le> 0"
    using assms by (intro mult_nonneg_nonpos clamp_log_nonpos) simp_all
  ultimately show ?thesis
    by (simp add: bce_elem_def)
qed

text \<open>
  Claim C6. For \<open>x_recon\<close> and \<open>x\<close> of the same sizes with all elements in \<open>[0, 1]\<close>, the
  summed binary cross-entropy is computed and is not negative.
\<close>

theorem reconstruction_nonneg:
  assumes "shape x = shape x_recon"
    and "list_all (\<lambda>p. 0 \<le> p \<and> p \<le> 1) (data x_recon)"
    and "list_all (\<lambda>y. 0 \<le> y \<and> y \<le> 1) (data x)"
  shows "\<exists>r. binary_cross_entropy_sum x_recon x = Inr r \<and> 0 \<le> r"
proof -
  have "0 \<le> v" if "v \<in> set (map2 bce_elem (data x_recon) (data x))" for v
  proof -
    from that obtain p y where "(p, y) \<in> set (zip (data x_recon) (data x))"
      and v: "v = bce_elem p y"
      by auto
    then have "p \<in> set (data x_recon)" "y \<in> set (data x)"
      by (auto dest: set_zip_leftD set_zip_rightD)
    with assms(2,3) show ?thesis
      unfolding v by (intro bce_elem_nonneg) (simp_all add: list_all_iff)
  qed
  then have "0 \<le> sum_list (map2 bce_elem (data x_recon) (data x))"
    by (rule sum_list_nonneg)
  with assms(1,2) show ?thesis
    by (simp add: binary_cross_entropy_sum_def)
qed

text \<open>Two pixels, \<open>x_recon = [\<onehalf>, 0]\<close> against \<open>x = [1, 1]\<close>.\<close>

theorem reconstruction_nonneg_witness:
  "\<exists>r. binary_cross_entropy_sum \<lparr>shape = [1, 2], data = [1 / 2, 0]\<rparr>
                                \<lparr>shape = [1, 2], data = [1, 1]\<rparr> = Inr r \<and> 0 \<le> r"
  using reconstruction_nonneg
    [of "\<lparr>shape = [1, 2], data = [1, 1]\<rparr>" "\<lparr>shape = [1, 2], data = [1 / 2, 0]\<rparr>"]
  by simp

lemma kld_same_shape:
  assumes "shape mu = shape logvar"
  shows "kld mu logvar =
    Inr (- 1 / 2 * sum_list (map2 (-) (map2 (-) (map (\<lambda>v. 1 + v) (data logvar))
                                          (map (\<lambda>v. v ^ 2) (data mu)))
                                (map exp (data logvar))))"
  using assms by (simp add: kld_def tmap_def tbinop_same_shape tsum_def)

lemma kl_terms_nth:
  "map2 (-) (map2 (-) (map (\<lambda>v. 1 + v) L) (map (\<lambda>v. v ^ 2) M)) (map exp L) =
   map (\<lambda>i. 1 + L ! i - (M ! i)\<^sup>2 - exp (L ! i)) [0..<min (length L) (length M)]"
  by (rule nth_equalityI) auto

lemma sum_list_blocks:
  fixes f :: "nat \<Rightarrow> real"
  shows "(\<Sum>k\<leftarrow>[0..<n * m]. f k) = (\<Sum>b\<leftarrow>[0..<n]. \<Sum>p\<leftarrow>[0..<m]. f (b * m + p))"
proof (induction n)
  case 0
  show ?case by simp
next
  case (Suc n)
  have split: "[0..<Suc n * m] = [0..<n * m] @ [n * m..<n * m + m]"
    using upt_add_eq_append [of 0 "n * m" m] by (simp add: add.commute)
  have "map f [n * m..<n * m + m] = map (\<lambda>p. f (n * m + p)) [0..<m]"
    using map_add_upt [of "n * m" m, symmetric] by (simp add: comp_def add.commute)
  with Suc split show ?case by simp
qed

lemma bce_sum_blocks:
  assumes "shape x_recon = n # ps" and "shape x = n # ps"
    and "tensor_ok x_recon" and "tensor_ok x"
    and "list_all (\<lambda>p. 0 \<le> p \<and> p \<le> 1) (data x_recon)"
  shows "binary_cross_entropy_sum x_recon x = Inr (reconstruction_term n (prod_list ps) x_recon x)"
proof -
  let ?X = "data x_recon" and ?Y = "data x"
  from assms have len: "length ?X = n * prod_list ps" "length ?Y = n * prod_list ps"
    by (simp_all add: tensor_ok_def)
  have "map2 bce_elem ?X ?Y = map (\<lambda>i. bce_elem (?X ! i) (?Y ! i)) [0..<n * prod_list ps]"
    using len by (intro nth_equalityI) simp_all
  then have "sum_list (map2 bce_elem ?X ?Y) = reconstruction_term n (prod_list ps) x_recon x"
    by (simp add: reconstruction_term_def sum_list_blocks)
  with assms(1,2,5) show ?thesis
    by (simp add: binary_cross_entropy_sum_def)
qed

lemma kld_blocks:
  assumes "shape mu = [n, l]" and "shape logvar = [n, l]"
    and "tensor_ok mu" and "tensor_ok logvar"
  shows "kld mu logvar = Inr (kl_term n l mu logvar)"
proof -
  from assms have len: "length (data mu) = n * l" "length (data logvar) = n * l"
    by (simp_all add: tensor_ok_def)
  from assms(1,2) have "shape mu = shape logvar" by simp
  then show ?thesis
    using len by (simp add: kld_same_shape kl_terms_nth kl_term_def sum_list_blocks)
qed

text \<open>
  Claim C2. For \<open>x_recon\<close> with elements in \<open>[0, 1]\<close> and \<open>x\<close> of the same sizes (\<open>n\<close> batch
  elements of \<open>prod_list ps\<close> pixels), and \<open>mu\<close>, \<open>logvar\<close> of sizes \<open>(n', l)\<close>, the loss is
  the binary cross-entropy summed over batch elements and pixels plus \<open>beta\<close> times
  \<open>-\<onehalf> \<cdot> \<Sum>(1 + logvar - mu\<^sup>2 - exp logvar)\<close> summed over batch elements and latent dimensions;
  a call without \<open>beta\<close> uses \<open>beta = 3\<close>.
\<close>

theorem vae_loss_formula:
  assumes "shape x_recon = n # ps" and "shape x = n # ps"
    and "tensor_ok x_recon" and "tensor_ok x"
    and "list_all (\<lambda>p. 0 \<le> p \<and> p \<le> 1) (data x_recon)"
    and "shape mu = [n', l]" and "shape logvar = [n', l]"
    and "tensor_ok mu" and "tensor_ok logvar"
  shows "vae_loss x_recon x mu logvar (Some beta) =
           Inr (spec_loss n (prod_list ps) n' l x_recon x mu logvar beta)
         \<and> vae_loss x_recon x mu logvar None =
           Inr (spec_loss n (prod_list ps) n' l x_recon x mu logvar 3)"
  using bce_sum_blocks [OF assms(1-5)] kld_blocks [OF assms(6-9)]
  by (simp add: vae_loss_def spec_loss_def)

text \<open>
  One pixel \<open>x_recon = \<onehalf>\<close> against \<open>x = 1\<close>, one latent dimension with \<open>mu = 1\<close>,
  \<open>logvar = 0\<close>, default \<open>beta\<close>: the loss is \<open>ln 2 + 3 \<cdot> \<onehalf>\<close>.
\<close>

theorem vae_loss_formula_witness:
  "vae_loss \<lparr>shape = [1, 1], data = [1 / 2]\<rparr> \<lparr>shape = [1, 1], data = [1]\<rparr>
            \<lparr>shape = [1, 1], data = [1]\<rparr> \<lparr>shape = [1, 1], data = [0]\<rparr> None
   = Inr (ln 2 + 3 / 2)"
proof -
  let ?xr = "\<lparr>shape = [1, 1], data = [1 / 2]\<rparr>" and ?x = "\<lparr>shape = [1, 1], data = [1]\<rparr>"
  let ?lv = "\<lparr>shape = [1, 1], data = [0]\<rparr>"
  have h: "shape ?xr = 1 # [1]" "shape ?x = 1 # [1]" "tensor_ok ?xr" "tensor_ok ?x"
    "list_all (\<lambda>p. 0 \<le> p \<and> p \<le> 1) (data ?xr)"
    "shape ?x = [1, 1]" "shape ?lv = [1, 1]" "tensor_ok ?x" "tensor_ok ?lv"
    by (simp_all add: tensor_ok_def)
  have "ln (2::real) \<le> 100"
    using ln_le_minus_one [of "2::real"] by simp
  then have "bce_elem (1 / 2) 1 = ln 2"
    by (simp add: bce_elem_def clamp_log_def ln_div max_def)
  then have "spec_loss 1 1 1 1 ?xr ?x ?x ?lv 3 = ln 2 + 3 / 2"
    by (simp add: spec_loss_def reconstruction_term_def kl_term_def)
  with vae_loss_formula [OF h, of 3] show ?thesis
    by simp
qed

section \<open>Properties of binary32 arithmetic\<close>

lemma overflow32_pos: "0 < overflow32"
  by (simp add: overflow32_def)



lemma ovf_nonneg: "0 \<le> x \<Longrightarrow> ovf x = PInf \<or> ovf x = Fin x"
  using overflow32_pos by (simp add: ovf_def)

lemma range32_nonneg: "0 \<le> x \<Longrightarrow> range32 x = PInf \<or> (\<exists>q. range32 x = Fin q \<and> 0 \<le> q)"
  using ovf_nonneg [of x] by (auto simp: range32_def)

lemma rnd_nonneg: "arith_ok A \<Longrightarrow> 0 \<le> x \<Longrightarrow> 0 \<le> rnd A x"
  unfolding arith_ok_def by (metis monoD)

lemma exact_sel [simp]: "rnd exact = id" "expf exact = exp" "logf exact = ln"
  by (simp_all add: exact_def)

lemma arith_ok_exact: "arith_ok exact"
  by (simp add: arith_ok_def mono_def)




section \<open>Properties of the loss in binary32\<close>

text \<open>\<open>exp n\<close> overflows from \<open>n = 128\<close> on, since \<open>2 \<le> exp 1\<close>.\<close>

lemma exp_overflows:
  assumes "128 \<le> n"
  shows "overflow32 \<le> exp (real n)"
proof -
  have "overflow32 \<le> (2::real) ^ 128"
    by (simp add: overflow32_def)
  also have "\<dots> \<le> 2 ^ n"
    using assms by (intro power_increasing) simp_all
  also have "\<dots> \<le> exp 1 ^ n"
    using exp_ge_add_one_self [of 1] by (intro power_mono) simp_all
  also have "\<dots> = exp (real n)"
    using exp_of_nat_mult [of n "1::real"] by simp
  finally show ?thesis .
qed

lemma exp_500_overflows: "range32 (exp 500) = PInf"
proof -
  have o: "overflow32 \<le> exp 500"
    using exp_overflows [of 500] by simp
  with overflow32_pos have "\<not> \<bar>exp (500::real)\<bar> \<le> underflow32"
    by (simp add: underflow32_def overflow32_def)
  with o show ?thesis
    by (simp add: range32_def ovf_def)
qed


lemma range32_simps:
  "range32 0 = Fin 0" "range32 1 = Fin 1" "range32 500 = Fin 500"
  "ovf 0 = Fin 0" "ovf 1 = Fin 1" "ovf 1001 = Fin 1001" "ovf (- 1) = Fin (- 1)"
  "range32 (1 / 2) = Fin (1 / 2)" "range32 (3 / 2) = Fin (3 / 2)"
  by (simp_all add: range32_def ovf_def overflow32_def underflow32_def)

lemma tbinop32_same_shape:
  "shape32 a = shape32 b \<Longrightarrow>
   tbinop32 f a b = Inr \<lparr>shape32 = shape32 a, data32 = map2 f (data32 a) (data32 b)\<rparr>"
  by (simp add: tbinop32_def)











section \<open>Properties of the sampler in binary32\<close>

lemma fexp_nonneg:
  assumes "arith_ok A" and "fexp A v = Fin s"
  shows "0 \<le> s"
proof (cases v)
  case (Fin a)
  from assms(1) have "0 \<le> expf A a" by (simp add: arith_ok_def)
  from range32_nonneg [OF this] assms(2) Fin show ?thesis by auto
qed (use assms(2) in auto)

lemma sample_elem:
  assumes "arith_ok A" and "finite32 A m" and "fexp A l = Fin s" and "0 \<le> e"
  shows "fle m (fadd A m (fmul A (Fin s) (Fin e)))"
proof -
  from assms(2) obtain a where m: "m = Fin a" and a: "rnd A a = a" "\<bar>a\<bar> < overflow32"
    by (cases m) auto
  from fexp_nonneg [OF assms(1,3)] assms(4) have "0 \<le> s * e" by simp
  from rnd_nonneg [OF assms(1) this] have "0 \<le> rnd A (s * e)" .
  from range32_nonneg [OF this] show ?thesis
  proof
    assume "range32 (rnd A (s * e)) = PInf"
    then show ?thesis by (simp add: m)
  next
    assume "\<exists>q. range32 (rnd A (s * e)) = Fin q \<and> 0 \<le> q"
    then obtain q where q: "range32 (rnd A (s * e)) = Fin q" "0 \<le> q" by blast
    from assms(1) have "mono (rnd A)" by (simp add: arith_ok_def)
    then have "rnd A a \<le> rnd A (a + q)"
      using q(2) by (intro monoD [of "rnd A"]) simp_all
    with a have "a \<le> rnd A (a + q)" by simp
    with a(2) q(1) show ?thesis
      by (auto simp: m ovf_def)
  qed
qed

lemma sample_f32_same_shape:
  assumes "shape32 mu = shape32 logvar"
  shows "sample_f32 A g mu logvar =
    Inr (\<lparr>shape32 = shape32 mu,
          data32 = map2 (fadd A) (data32 mu)
                     (map2 (fmul A) (map (\<lambda>v. fexp A (fdiv A v (Fin 2))) (data32 logvar))
                        (map g [0..<prod_list (shape32 logvar)]))\<rparr>,
         \<lambda>i. g (i + prod_list (shape32 logvar)))"
  using assms
  by (simp add: sample_f32_def rand_like32_def tmap32_def tbinop32_same_shape Let_def comp_def)

text \<open>
  Claim C10. When the generator delivers numbers of \<open>[0, 1)\<close>, \<open>mu\<close> and \<open>logvar\<close> have the
  same sizes, every element of \<open>mu\<close> is a finite number and the standard deviation
  \<open>exp (logvar / 2)\<close> of every element is a finite number, the sample is computed and no
  element of it is below the corresponding element of \<open>mu\<close>, in every arithmetic that
  satisfies \<open>arith_ok\<close>.
\<close>

theorem sample_f32_ge_mu:
  assumes "arith_ok A"
    and "uniform01 g"
    and "shape32 mu = shape32 logvar"
    and "length (data32 mu) = prod_list (shape32 mu)"
    and "length (data32 logvar) = prod_list (shape32 logvar)"
    and "\<forall>v \<in> set (data32 mu). finite32 A v"
    and "\<forall>v \<in> set (data32 logvar). \<exists>s. fexp A (fdiv A v (Fin 2)) = Fin s"
  shows "\<exists>z g'. sample_f32 A g mu logvar = Inr (z, g')
           \<and> shape32 z = shape32 mu
           \<and> length (data32 z) = length (data32 mu)
           \<and> (\<forall>i < length (data32 mu). fle (data32 mu ! i) (data32 z ! i))"
proof -
  let ?M = "data32 mu" and ?L = "data32 logvar"
  let ?n = "length ?M"
  from assms(3,4,5) have len: "length ?L = ?n" "prod_list (shape32 logvar) = ?n"
    by simp_all
  let ?z = "\<lparr>shape32 = shape32 mu,
          data32 = map2 (fadd A) ?M
                     (map2 (fmul A) (map (\<lambda>v. fexp A (fdiv A v (Fin 2))) ?L)
                        (map g [0..<?n]))\<rparr>"
  have z: "sample_f32 A g mu logvar = Inr (?z, \<lambda>i. g (i + ?n))"
    using sample_f32_same_shape [OF assms(3), of A g] len by simp
  have "fle (?M ! i) (data32 ?z ! i)" if i: "i < ?n" for i
  proof -
    from assms(2) obtain e where e: "g i = Fin e" "0 \<le> e"
      unfolding uniform01_def by blast
    from i assms(6) have fin: "finite32 A (?M ! i)" by simp
    from i len assms(7) obtain s where s: "fexp A (fdiv A (?L ! i) (Fin 2)) = Fin s"
      by (metis nth_mem)
    from sample_elem [OF assms(1) fin s e(2)] i len e(1) s show ?thesis
      by simp
  qed
  with z len show ?thesis by simp
qed

text \<open>Every draw equal to \<open>\<onehalf>\<close>, \<open>mu = [3, -1]\<close> and \<open>logvar = [0, 4]\<close>.\<close>

theorem sample_f32_ge_mu_witness:
  "\<exists>z g'. sample_f32 exact (\<lambda>_. Fin (1 / 2)) \<lparr>shape32 = [2], data32 = [Fin 3, Fin (- 1)]\<rparr>
              \<lparr>shape32 = [2], data32 = [Fin 0, Fin 4]\<rparr> = Inr (z, g')
        \<and> fle (Fin 3) (data32 z ! 0) \<and> fle (Fin (- 1)) (data32 z ! 1)"
proof -
  let ?g = "\<lambda>_::nat. Fin (1 / 2)"
  let ?mu = "\<lparr>shape32 = [2], data32 = [Fin 3, Fin (- 1)]\<rparr>"
  let ?lv = "\<lparr>shape32 = [2], data32 = [Fin 0, Fin 4]\<rparr>"
  have e1: "exp (1::real) \<le> 3" "exp (2::real) \<le> 9"
  proof -
    show "exp (1::real) \<le> 3" using exp_le by simp
    then have "exp (1::real) ^ 2 \<le> 3 ^ 2" by (intro power_mono) simp_all
    then show "exp (2::real) \<le> 9"
      using exp_of_nat_mult [of 2 "1::real"] by simp
  qed
  have std: "\<exists>s. fexp exact (fdiv exact (Fin 0) (Fin 2)) = Fin s"
    "\<exists>s. fexp exact (fdiv exact (Fin 4) (Fin 2)) = Fin s"
  proof -
    show "\<exists>s. fexp exact (fdiv exact (Fin 0) (Fin 2)) = Fin s"
      by (simp add: range32_simps)
    have "range32 (4 / 2) = Fin 2"
      by (simp add: range32_def ovf_def overflow32_def underflow32_def)
    moreover have "range32 (exp 2) = Fin (exp 2)"
      using e1(2) exp_ge_add_one_self [of "2::real"]
      by (simp add: range32_def ovf_def overflow32_def underflow32_def)
    ultimately show "\<exists>s. fexp exact (fdiv exact (Fin 4) (Fin 2)) = Fin s"
      by simp
  qed
  have h1: "uniform01 ?g"
    unfolding uniform01_def by (intro allI exI [of _ "1 / 2"]) simp
  have h2: "shape32 ?mu = shape32 ?lv"
    "length (data32 ?mu) = prod_list (shape32 ?mu)"
    "length (data32 ?lv) = prod_list (shape32 ?lv)"
    "\<forall>v \<in> set (data32 ?mu). finite32 exact v"
    by (simp_all add: overflow32_def)
  have h3: "\<forall>v \<in> set (data32 ?lv). \<exists>s. fexp exact (fdiv exact v (Fin 2)) = Fin s"
    using std by (simp del: fexp.simps fdiv.simps)
  from sample_f32_ge_mu [OF arith_ok_exact h1 h2 h3]
  obtain z g' where r: "sample_f32 exact ?g ?mu ?lv = Inr (z, g')"
    and d: "\<forall>i < length (data32 ?mu). fle (data32 ?mu ! i) (data32 z ! i)"
    by blast
  from d [rule_format, of 0] d [rule_format, of 1]
  have "fle (Fin 3) (data32 z ! 0)" "fle (Fin (- 1)) (data32 z ! 1)"
    by simp_all
  with r show ?thesis by blast
qed

text \<open>
  Without the hypothesis on the standard deviation the sample can fail to be at least
  \<open>mu\<close>. For \<open>mu = 0\<close> and \<open>logvar = 1000\<close> the standard deviation \<open>exp 500\<close> overflows to
  \<open>+\<infinity>\<close>; with the draw \<open>0\<close> the sample is \<open>0 + \<infinity> \<cdot> 0\<close>, which is NaN, and \<open>0 \<le> NaN\<close> is
  false.
\<close>

theorem sample_f32_ge_mu_counterexample:
  "map_sum id fst (sample_f32 exact (\<lambda>_. Fin 0) \<lparr>shape32 = [1], data32 = [Fin 0]\<rparr>
                                          \<lparr>shape32 = [1], data32 = [Fin 1000]\<rparr>)
     = Inr \<lparr>shape32 = [1], data32 = [NaN]\<rparr>
   \<and> \<not> fle (Fin 0) NaN"
  by (simp add: sample_f32_same_shape range32_simps exp_500_overflows)

section \<open>Properties of the data pipeline\<close>

lemma chunks_Nil: "chunks n [] = []"
  by (simp add: chunks.simps)

lemma chunks_step:
  "0 < n \<Longrightarrow> xs \<noteq> [] \<Longrightarrow> chunks n xs = take n xs # chunks n (drop n xs)"
  by (subst chunks.simps) simp

lemma concat_chunks: "0 < n \<Longrightarrow> concat (chunks n xs) = xs"
proof (induction n xs rule: chunks.induct)
  case (1 n xs)
  then show ?case
    by (cases "xs = []") (simp_all add: chunks_Nil chunks_step)
qed

lemma length_chunks: "0 < n \<Longrightarrow> length (chunks n xs) = (length xs + n - 1) div n"
proof (induction n xs rule: chunks.induct)
  case (1 n xs)
  show ?case
  proof (cases "xs = []")
    case True
    with 1 show ?thesis by (simp add: chunks_Nil)
  next
    case False
    then have pos: "0 < length xs" by simp
    from 1 False have "length (chunks n xs) = Suc ((length xs - n + n - 1) div n)"
      by (simp add: chunks_step)
    also have "\<dots> = (length xs + n - 1) div n"
    proof (cases "n \<le> length xs")
      case True
      then have "length xs + n - 1 = (length xs - n + n - 1) + n"
        using \<open>0 < n\<close> by simp
      then show ?thesis
        using \<open>0 < n\<close> by (metis div_add_self2 less_numeral_extra(3) Suc_eq_plus1)
    next
      case False
      then have "length xs - n + n - 1 < n" "length xs + n - 1 < 2 * n" "n \<le> length xs + n - 1"
        using pos \<open>0 < n\<close> by arith+
      then have "(length xs - n + n - 1) div n = 0" "(length xs + n - 1) div n = 1"
        by (simp_all add: div_nat_eqI)
      then show ?thesis by simp
    qed
    finally show ?thesis .
  qed
qed

lemma DataLoader_len_batches:
  assumes "0 < ld_batch_size ld" and "length p = Dataset_len (ld_dataset ld)"
  shows "length (DataLoader_indices ld p) = DataLoader_len ld"
  using assms by (simp add: DataLoader_indices_def DataLoader_len_def length_chunks)

lemma slice_minus_test_size:
  "slice_to ps (- test_size) = take (length ps - 100) ps"
  "slice_from ps (- test_size) = drop (length ps - 100) ps"
  by (simp_all add: slice_to_def slice_from_def test_size_def nat_diff_distrib')

lemma data_cell_long:
  assumes "100 < length ps"
  shows "data_cell ps =
    Inr \<lparr>train_data = \<lparr>paths = take (length ps - 100) ps\<rparr>,
         train_loader = \<lparr>ld_dataset = \<lparr>paths = take (length ps - 100) ps\<rparr>,
                         ld_batch_size = 4, ld_shuffle = True\<rparr>,
         test_data = \<lparr>paths = drop (length ps - 100) ps\<rparr>,
         test_loader = \<lparr>ld_dataset = \<lparr>paths = drop (length ps - 100) ps\<rparr>,
                        ld_batch_size = 4, ld_shuffle = False\<rparr>\<rparr>"
proof -
  from assms have "ps \<noteq> []" by auto
  with assms show ?thesis
    by (simp add: data_cell_def slice_minus_test_size DataLoader_init_def Dataset_init_def
        Dataset_len_def batch_size_def Let_def and_then_def)
qed

text \<open>With at most 100 paths the train split is empty, and building its loader raises.\<close>

lemma data_cell_short:
  assumes "length ps \<le> 100"
  shows "data_cell ps = Inl ValueError"
  using assms
  by (simp add: data_cell_def slice_minus_test_size DataLoader_init_def Dataset_init_def
      Dataset_len_def Let_def and_then_def)

text \<open>
  Claim C7. For every list of paths on which the cell completes, the test split consists
  of exactly the last 100 paths and the train split of all preceding paths in their
  original order, so that the train split followed by the test split is the list; the
  train loader shuffles and the test loader does not: a pass over the train loader reads
  the items in the order of the permutation \<open>p\<close> drawn for it, a pass over the test loader
  always in the order of the list. The cell completes on every list of more than 100
  paths. Reading an item leaves the paths of the data set as they are.
\<close>

theorem dataset_split:
  "(\<forall>c. data_cell ps = Inr c \<longrightarrow>
      paths (test_data c) = drop (length ps - 100) ps
      \<and> length (paths (test_data c)) = 100
      \<and> paths (train_data c) = take (length ps - 100) ps
      \<and> paths (train_data c) @ paths (test_data c) = ps
      \<and> ld_dataset (train_loader c) = train_data c \<and> ld_shuffle (train_loader c)
      \<and> concat (DataLoader_indices (train_loader c) p) = p
      \<and> ld_dataset (test_loader c) = test_data c \<and> \<not> ld_shuffle (test_loader c)
      \<and> concat (DataLoader_indices (test_loader c) p) = [0..<100])
   \<and> (100 < length ps \<longrightarrow> (\<exists>c. data_cell ps = Inr c))
   \<and> (\<forall>ds i x ds'. Dataset_getitem load ds i = Inr (x, ds') \<longrightarrow> paths ds' = paths ds)"
proof (intro conjI allI impI)
  fix c assume c: "data_cell ps = Inr c"
  have long: "100 < length ps"
  proof (rule ccontr)
    assume "\<not> 100 < length ps"
    then have "data_cell ps = Inl ValueError"
      by (intro data_cell_short) simp
    with c show False by simp
  qed
  from data_cell_long [OF long] c
  have c': "c = \<lparr>train_data = \<lparr>paths = take (length ps - 100) ps\<rparr>,
         train_loader = \<lparr>ld_dataset = \<lparr>paths = take (length ps - 100) ps\<rparr>,
                         ld_batch_size = 4, ld_shuffle = True\<rparr>,
         test_data = \<lparr>paths = drop (length ps - 100) ps\<rparr>,
         test_loader = \<lparr>ld_dataset = \<lparr>paths = drop (length ps - 100) ps\<rparr>,
                        ld_batch_size = 4, ld_shuffle = False\<rparr>\<rparr>"
    by simp
  show "paths (test_data c) = drop (length ps - 100) ps"
    and "paths (train_data c) = take (length ps - 100) ps"
    and "paths (train_data c) @ paths (test_data c) = ps"
    and "ld_dataset (train_loader c) = train_data c"
    and "ld_shuffle (train_loader c)"
    and "ld_dataset (test_loader c) = test_data c"
    and "\<not> ld_shuffle (test_loader c)"
    by (simp_all add: c')
  show "length (paths (test_data c)) = 100"
    using long by (simp add: c')
  show "concat (DataLoader_indices (train_loader c) p) = p"
    by (simp add: c' DataLoader_indices_def concat_chunks)
  show "concat (DataLoader_indices (test_loader c) p) = [0..<100]"
    using long by (simp add: c' DataLoader_indices_def concat_chunks Dataset_len_def)
next
  assume "100 < length ps"
  then show "\<exists>c. data_cell ps = Inr c"
    by (simp add: data_cell_long)
next
  fix ds i x ds'
  assume "Dataset_getitem load ds i = Inr (x, ds')"
  then show "paths ds' = paths ds"
    by (auto simp: Dataset_getitem_def Let_def split: if_splits sum.splits)
qed

text \<open>A list of 102 paths: 100 of them in the test split, the first two in the train split.\<close>

theorem dataset_split_witness:
  "\<exists>c. data_cell (map (\<lambda>n. replicate n CHR ''a'' @ ''.jpg'') [0..<102]) = Inr c
      \<and> length (paths (test_data c)) = 100
      \<and> paths (train_data c) = [''.jpg'', ''a.jpg'']
      \<and> ld_shuffle (train_loader c) \<and> \<not> ld_shuffle (test_loader c)"
proof -
  let ?ps = "map (\<lambda>n. replicate n CHR ''a'' @ ''.jpg'') [0..<102]"
  have len: "100 < length ?ps" "length ?ps - 100 = 2"
    by simp_all
  note t = dataset_split [where ps = ?ps and p = "[]"
      and load = "\<lambda>p::string. (Inr p :: error + string)"]
  from t len(1) obtain c where c: "data_cell ?ps = Inr c"
    by blast
  with t have te: "length (paths (test_data c)) = 100"
    and tr: "paths (train_data c) = take (length ?ps - 100) ?ps"
    and sh: "ld_shuffle (train_loader c)" "\<not> ld_shuffle (test_loader c)"
    by blast+
  have "take (length ?ps - 100) ?ps = take 2 ?ps"
    by (simp only: len(2))
  also have "\<dots> = [''.jpg'', ''a.jpg'']"
    by (simp add: take_map)
  finally have "paths (train_data c) = [''.jpg'', ''a.jpg'']"
    using tr by simp
  with c te sh show ?thesis
    by blast
qed

section \<open>Properties of the training loop\<close>

lemma batch_loop_result:
  "batch_loop step L k xs s = Inr s' \<Longrightarrow>
   model s' = after_batches step (model s) xs
   \<and> running_loss s' = running_loss s + sum_list (batch_losses step (model s) xs)
   \<and> printed_lines (out s') = printed_lines (out s)"
proof (induction xs arbitrary: k s)
  case Nil
  then show ?case by simp
next
  case (Cons x xs)
  obtain loss m where st: "step (model s) x = (loss, m)"
    by (cases "step (model s) x")
  let ?s1 = "s\<lparr>model := m, running_loss := running_loss s + loss\<rparr>"
  let ?s2 = "if k mod (L div 10) = 0 then ?s1\<lparr>out := out ?s1 @ [Progress]\<rparr> else ?s1"
  from Cons.prems st have run: "batch_loop step L (k + 1) xs ?s2 = Inr s'"
    by (simp add: Let_def split: if_splits)
  from Cons.IH [OF run] st show ?case
    by (simp add: printed_lines_def split: if_splits)
qed

lemma batch_loop_completes:
  "0 < L div 10 \<Longrightarrow> \<exists>s'. batch_loop step L k xs s = Inr s'"
proof (induction xs arbitrary: k s)
  case Nil
  then show ?case by simp
next
  case (Cons x xs)
  then show ?case
    by (cases "step (model s) x") (simp add: Let_def)
qed

lemma epoch_loop_result:
  "epoch_loop step loader L N es s = Inr s' \<Longrightarrow>
   model s' = after_epochs step loader (model s) es
   \<and> printed_lines (out s') = printed_lines (out s) @ epoch_logs step loader N (model s) es"
proof (induction es arbitrary: s)
  case Nil
  then show ?case by simp
next
  case (Cons e es)
  from Cons.prems obtain s1 where
    b: "batch_loop step L 1 (loader e) (s\<lparr>running_loss := 0\<rparr>) = Inr s1"
    and N: "N \<noteq> 0"
    and rest: "epoch_loop step loader L N es
                 (s1\<lparr>out := out s1 @ [Epoch_log e (running_loss s1 / real N)]\<rparr>) = Inr s'"
    by (auto split: sum.splits if_splits)
  from batch_loop_result [OF b] Cons.IH [OF rest] show ?case
    by (simp add: printed_lines_def)
qed

lemma epoch_loop_completes:
  "0 < L div 10 \<Longrightarrow> 0 < N \<Longrightarrow> \<exists>s'. epoch_loop step loader L N es s = Inr s'"
proof (induction es arbitrary: s)
  case Nil
  then show ?case by simp
next
  case (Cons e es)
  from batch_loop_completes [OF Cons.prems(1)]
  obtain s1 where "batch_loop step L 1 (loader e) (s\<lparr>running_loss := 0\<rparr>) = Inr s1"
    by blast
  with Cons show ?case by simp
qed

lemma saved_epoch_logs: "saved (epoch_logs step loader N m es) = []"
  by (induction es arbitrary: m) (simp_all add: saved_def)

lemma saved_printed_lines: "saved (printed_lines evs) = saved evs"
proof -
  have "ev \<noteq> Progress \<and> is_save ev \<longleftrightarrow> is_save ev" for ev :: "'a event"
    by (cases ev) simp_all
  then show ?thesis
    by (simp add: saved_def printed_lines_def)
qed

text \<open>
  Claim C8. In every run of the training loop that ends without raising, the lines
  logged are one per epoch, in order, each with the sum of the losses of the batches of
  that epoch alone (the running loss starts from zero in each epoch) divided by the
  number of training samples; after the last of them the parameters reached after all
  epochs are saved to \<^verbatim>\<open>beta-vae.pth\<close>, and nothing else is saved. The run ends without
  raising when the train loader has at least ten batches and the train split is not empty.
\<close>

theorem train_logs_mean_loss:
  "(\<forall>s. train step loader len_loader len_data vae = Inr s \<longrightarrow>
      printed_lines (out s) =
        epoch_logs step loader len_data vae [1..<epochs + 1]
        @ [Save ''beta-vae.pth'' (after_epochs step loader vae [1..<epochs + 1])]
      \<and> saved (out s) = [Save ''beta-vae.pth'' (after_epochs step loader vae [1..<epochs + 1])]
      \<and> model s = after_epochs step loader vae [1..<epochs + 1])
   \<and> (10 \<le> len_loader \<and> 0 < len_data \<longrightarrow>
        (\<exists>s. train step loader len_loader len_data vae = Inr s))"
proof (intro conjI allI impI)
  fix s assume "train step loader len_loader len_data vae = Inr s"
  then obtain s0 where
    e: "epoch_loop step loader len_loader len_data [1..<epochs + 1]
          \<lparr>model = vae, running_loss = 0, out = []\<rparr> = Inr s0"
    and s: "s = s0\<lparr>out := out s0 @ [Save ''beta-vae.pth'' (model s0)]\<rparr>"
    by (auto simp: train_def split: sum.splits)
  from epoch_loop_result [OF e] s
  show lines: "printed_lines (out s) =
        epoch_logs step loader len_data vae [1..<epochs + 1]
        @ [Save ''beta-vae.pth'' (after_epochs step loader vae [1..<epochs + 1])]"
    and "model s = after_epochs step loader vae [1..<epochs + 1]"
    by (simp_all add: printed_lines_def)
  have "saved (out s) = saved (printed_lines (out s))"
    by (simp add: saved_printed_lines)
  also have "\<dots> = saved (epoch_logs step loader len_data vae [1..<epochs + 1])
                   @ saved [Save ''beta-vae.pth'' (after_epochs step loader vae [1..<epochs + 1])]"
    unfolding lines by (simp add: saved_def)
  finally show "saved (out s) =
      [Save ''beta-vae.pth'' (after_epochs step loader vae [1..<epochs + 1])]"
    by (simp add: saved_epoch_logs) (simp add: saved_def)
next
  assume "10 \<le> len_loader \<and> 0 < len_data"
  then have "0 < len_loader div 10" "0 < len_data"
    by (simp_all add: div_greater_zero_iff)
  from epoch_loop_completes [OF this]
  obtain s0 where "epoch_loop step loader len_loader len_data [1..<epochs + 1]
                     \<lparr>model = vae, running_loss = 0, out = []\<rparr> = Inr s0"
    by blast
  then show "\<exists>s. train step loader len_loader len_data vae = Inr s"
    by (simp add: train_def)
qed

text \<open>
  A run with ten batches per epoch on forty samples, where every batch has loss 2 and
  the model counts the steps: each epoch logs \<open>20 / 40\<close>, and the model after 100 steps is
  saved once.
\<close>

lemma counting_run_model:
  "after_epochs (\<lambda>m x. (x, Suc m)) (\<lambda>e. replicate 10 (2::real)) 0 [1..<epochs + 1] = 100"
  by code_simp

lemma counting_run_logs:
  "epoch_logs (\<lambda>m x. (x, Suc m)) (\<lambda>e. replicate 10 (2::real)) 40 0 [1..<epochs + 1]
   = map (\<lambda>e. Epoch_log e (1 / 2)) [1, 2, 3, 4, 5, 6, 7, 8, 9, 10]"
  by code_simp

theorem train_logs_mean_loss_witness:
  "\<exists>s. train (\<lambda>m x. (x, Suc m)) (\<lambda>e. replicate 10 (2::real)) 10 40 0 = Inr s
      \<and> printed_lines (out s) =
          map (\<lambda>e. Epoch_log e (1 / 2)) [1, 2, 3, 4, 5, 6, 7, 8, 9, 10]
          @ [Save ''beta-vae.pth'' 100]
      \<and> saved (out s) = [Save ''beta-vae.pth'' 100]
      \<and> model s = 100"
proof -
  let ?step = "\<lambda>(m::nat) (x::real). (x, Suc m)" and ?loader = "\<lambda>e::nat. replicate 10 (2::real)"
  note t = train_logs_mean_loss [of ?step ?loader 10 40 0]
  from t have "\<exists>s. train ?step ?loader 10 40 0 = Inr s"
    by simp
  then obtain s where s: "train ?step ?loader 10 40 0 = Inr s" ..
  with t have "printed_lines (out s) =
        epoch_logs ?step ?loader 40 0 [1..<epochs + 1]
        @ [Save ''beta-vae.pth'' (after_epochs ?step ?loader 0 [1..<epochs + 1])]"
    and "saved (out s) = [Save ''beta-vae.pth'' (after_epochs ?step ?loader 0 [1..<epochs + 1])]"
    and "model s = after_epochs ?step ?loader 0 [1..<epochs + 1]"
    by blast+
  with s show ?thesis
    unfolding counting_run_model counting_run_logs by blast
qed

end
